theory Spec2Isabelle
  imports Main "HOL-Library.Word" "HOL-Library.Signed_Division" "HOL-Library.Sublist"
begin

section \<open>The reload-configuration decode of xmlrpcclient/xmlrpc-client.go\<close>

subsection \<open>The variables captured by the two callbacks\<close>

text \<open>
  \<^verbatim>\<open>types.ReloadConfigResult\<close> is declared outside the file; \<^verbatim>\<open>ReloadConfig\<close> uses three
  fields of it, each a slice of strings that it creates empty and grows with \<^verbatim>\<open>append\<close>.
\<close>

record ReloadConfigResult =
  AddedGroup :: "string list"
  ChangedGroup :: "string list"
  RemovedGroup :: "string list"

text \<open>
  The two closures registered by \<^verbatim>\<open>ReloadConfig\<close> share \<^verbatim>\<open>reply\<close>, the counter \<^verbatim>\<open>i\<close> and the
  flag \<^verbatim>\<open>has_value\<close>. The counter is a Go \<^verbatim>\<open>int\<close>, 64 bits wide on the linux target of the
  Dockerfile, and \<^verbatim>\<open>i++\<close> wraps around.
\<close>

record closure =
  reply :: ReloadConfigResult
  var_i :: "64 word"
  has_value :: bool

text \<open>Lines 220 to 224: three empty slices, \<^verbatim>\<open>i := -1\<close>, \<^verbatim>\<open>has_value := false\<close>.\<close>

definition closure_init :: closure where
  "closure_init =
     \<lparr>reply = \<lparr>AddedGroup = [], ChangedGroup = [], RemovedGroup = []\<rparr>,
      var_i = - 1,
      has_value = False\<rparr>"

text \<open>Lines 226 to 232, the callback registered for the path that ends in \<^verbatim>\<open>array/data\<close>.\<close>

definition nonLeafProcessor :: "closure \<Rightarrow> closure" where
  "nonLeafProcessor c =
     (if has_value c then c\<lparr>has_value := False\<rparr>
      else c\<lparr>var_i := var_i c + 1\<rparr>)"

text \<open>
  Lines 234 to 245, the callback registered for the path that ends in \<^verbatim>\<open>array/data/value\<close>.
  The \<^verbatim>\<open>switch\<close> has three cases and no default.
\<close>

definition leafProcessor :: "string \<Rightarrow> closure \<Rightarrow> closure" where
  "leafProcessor v c =
     (let c1 = c\<lparr>has_value := True\<rparr>;
          c2 = c1\<lparr>var_i := var_i c1 + 1\<rparr>
      in if var_i c2 = 0 then
           c2\<lparr>reply := (reply c2)\<lparr>AddedGroup := AddedGroup (reply c2) @ [v]\<rparr>\<rparr>
         else if var_i c2 = 1 then
           c2\<lparr>reply := (reply c2)\<lparr>ChangedGroup := ChangedGroup (reply c2) @ [v]\<rparr>\<rparr>
         else if var_i c2 = 2 then
           c2\<lparr>reply := (reply c2)\<lparr>RemovedGroup := RemovedGroup (reply c2) @ [v]\<rparr>\<rparr>
         else c2)"

subsection \<open>Sequences of callback invocations\<close>

text \<open>
  Whatever the document, the processor can only act on the captured variables by invoking
  the two registered callbacks, one after the other. A run of the decode is therefore a
  finite sequence of invocations, applied from left to right.
\<close>

datatype invocation = LeafCall string | NonLeafCall

fun invoke :: "invocation \<Rightarrow> closure \<Rightarrow> closure" where
  "invoke (LeafCall v) c = leafProcessor v c"
| "invoke NonLeafCall c = nonLeafProcessor c"

fun invoke_all :: "invocation list \<Rightarrow> closure \<Rightarrow> closure" where
  "invoke_all [] c = c"
| "invoke_all (e # es) c = invoke_all es (invoke e c)"




section \<open>The path-keyed processor\<close>

text \<open>
  Modelled from the spec: \<^verbatim>\<open>XmlProcessorManager\<close> with \<^verbatim>\<open>NewXmlProcessorManager\<close>,
  \<^verbatim>\<open>AddNonLeafProcessor\<close>, \<^verbatim>\<open>AddLeafProcessor\<close> and \<^verbatim>\<open>ProcessXml\<close> belongs to the package
  \<^verbatim>\<open>xmlrpcclient\<close> but is defined outside \<^verbatim>\<open>xmlrpc-client.go\<close>, which only calls it. The
  spec describes it (sections 3 and 4.4): the body is read as a stream of structural
  events (element-enter, element-leaf, element-exit); a path stack is kept; the
  registration table maps a slash-delimited path, compared exactly, to a leaf callback or
  to a container callback; a container callback fires each time an element with that path
  is entered or left, a leaf callback fires for each terminal element with that path and
  receives its text; malformed or truncated input is a decode failure.
\<close>

datatype xml_event = ElementEnter string | ElementLeaf string string | ElementExit

datatype 's processor = LeafProcessor "string \<Rightarrow> 's \<Rightarrow> 's" | NonLeafProcessor "'s \<Rightarrow> 's"

type_synonym 's XmlProcessorManager = "string \<rightharpoonup> 's processor"

definition NewXmlProcessorManager :: "'s XmlProcessorManager" where
  "NewXmlProcessorManager = Map.empty"

definition AddNonLeafProcessor ::
  "string \<Rightarrow> ('s \<Rightarrow> 's) \<Rightarrow> 's XmlProcessorManager \<Rightarrow> 's XmlProcessorManager" where
  "AddNonLeafProcessor path fn mgr = mgr(path \<mapsto> NonLeafProcessor fn)"

definition AddLeafProcessor ::
  "string \<Rightarrow> (string \<Rightarrow> 's \<Rightarrow> 's) \<Rightarrow> 's XmlProcessorManager \<Rightarrow> 's XmlProcessorManager" where
  "AddLeafProcessor path fn mgr = mgr(path \<mapsto> LeafProcessor fn)"

fun path_string :: "string list \<Rightarrow> string" where
  "path_string [] = []"
| "path_string [n] = n"
| "path_string (n # m # ns) = n @ ''/'' @ path_string (m # ns)"

definition ProcessNonLeafNode :: "'s XmlProcessorManager \<Rightarrow> string list \<Rightarrow> 's \<Rightarrow> 's" where
  "ProcessNonLeafNode mgr path s =
     (case mgr (path_string path) of
        Some (NonLeafProcessor fn) \<Rightarrow> fn s
      | _ \<Rightarrow> s)"

definition ProcessLeafNode :: "'s XmlProcessorManager \<Rightarrow> string list \<Rightarrow> string \<Rightarrow> 's \<Rightarrow> 's" where
  "ProcessLeafNode mgr path str s =
     (case mgr (path_string path) of
        Some (LeafProcessor fn) \<Rightarrow> fn str s
      | _ \<Rightarrow> s)"

datatype decode_outcome = DecodeOk | DecodeFailure

text \<open>
  Modelled from the spec: the single linear pass of \<^verbatim>\<open>ProcessXml\<close> over the events, in
  document order, with the path stack as an argument. The stream may stop while elements are
  open (a truncated document) or close an element that was never opened (a malformed one):
  both are decode failures. The callbacks have already changed the caller's variables by
  then, as Go closures do; the state is returned as it stands.
\<close>

fun process_events ::
  "'s XmlProcessorManager \<Rightarrow> string list \<Rightarrow> xml_event list \<Rightarrow> 's \<Rightarrow> decode_outcome \<times> 's" where
  "process_events mgr path [] s = (if path = [] then DecodeOk else DecodeFailure, s)"
| "process_events mgr path (ElementEnter n # es) s =
     process_events mgr (path @ [n]) es (ProcessNonLeafNode mgr (path @ [n]) s)"
| "process_events mgr path (ElementLeaf n str # es) s =
     process_events mgr path es (ProcessLeafNode mgr (path @ [n]) str s)"
| "process_events mgr path (ElementExit # es) s =
     (if path = [] then (DecodeFailure, s)
      else process_events mgr (butlast path) es (ProcessNonLeafNode mgr path s))"

text \<open>Modelled from the spec: \<^verbatim>\<open>ProcessXml\<close> starts the pass with an empty path stack.\<close>

definition ProcessXml :: "'s XmlProcessorManager \<Rightarrow> xml_event list \<Rightarrow> 's \<Rightarrow> decode_outcome \<times> 's" where
  "ProcessXml mgr body s = process_events mgr [] body s"

section \<open>The client and its environment\<close>

record XmlRPCClient =
  serverurl :: string
  user :: string
  password :: string
  timeout :: int

text \<open>
  \<^verbatim>\<open>timeout\<close> is a \<^verbatim>\<open>time.Duration\<close> and \<^verbatim>\<open>StatusCode\<close> a Go \<^verbatim>\<open>int\<close>. The client only
  compares the first with 0 and divides the second by 100, neither of which can overflow,
  so both are integers here; the division truncates towards zero (\<open>sdiv\<close>).
\<close>

datatype error = Error (Msg: string)

datatype 'a outcome = Return 'a | Panic string

record URL =
  Scheme :: string
  Path :: string

record Request =
  Method :: string
  Target :: string
  Payload :: string
  Header :: "(string \<times> string) list"
  BasicAuth :: "(string \<times> string) option"
  ContextTimeout :: "int option"

record Response =
  Status :: string
  StatusCode :: int
  Body :: "xml_event list"

text \<open>The argument records that the methods pass to \<^verbatim>\<open>post\<close>.\<close>

datatype rpc_args = NoArgs | ValueArg string | WaitArg bool

text \<open>
  Everything \<^verbatim>\<open>post\<close> does to the outside world is recorded, in order. Whether a call
  to the outside succeeds is not the client's doing: the environment says, for each
  library call, what it returns.
\<close>

datatype action =
    Print string
  | ClientDo Request
  | NetDial string
  | NetDialTimeout string int
  | ConnSetDeadline int
  | ConnWrite Request
  | ConnReadResponse
  | ConnClose
  | ContextCancel
  | BodyClose Response

record 'p env =
  EncodeClientRequest :: "string \<Rightarrow> rpc_args \<Rightarrow> string"
  url_Parse :: "string \<Rightarrow> error + URL"
  http_NewRequest :: "string \<Rightarrow> string \<Rightarrow> error option"
  DefaultClient_Do :: "Request \<Rightarrow> error + Response"
  net_Dial :: "string \<Rightarrow> error option"
  net_DialTimeout :: "string \<Rightarrow> int \<Rightarrow> error option"
  conn_SetDeadline :: "int \<Rightarrow> error option"
  req_Write :: "Request \<Rightarrow> error option"
  http_ReadResponse :: "Request \<Rightarrow> error + Response"
  Decode_StartStopReply :: "xml_event list \<Rightarrow> bool \<Rightarrow> bool \<times> error option"
  Decode_AllProcessInfoReply :: "xml_event list \<Rightarrow> 'p list \<Rightarrow> 'p list \<times> error option"

definition Url :: "XmlRPCClient \<Rightarrow> string" where
  "Url r = serverurl r @ ''/RPC2''"

text \<open>What \<^verbatim>\<open>http.NewRequest\<close> returns when it does not fail.\<close>

definition new_request :: "string \<Rightarrow> string \<Rightarrow> string \<Rightarrow> Request" where
  "new_request m target buf =
     \<lparr>Method = m, Target = target, Payload = buf, Header = [],
      BasicAuth = None, ContextTimeout = None\<rparr>"

definition SetBasicAuth :: "string \<Rightarrow> string \<Rightarrow> Request \<Rightarrow> Request" where
  "SetBasicAuth u p req = req\<lparr>BasicAuth := Some (u, p)\<rparr>"

definition Header_Set :: "string \<Rightarrow> string \<Rightarrow> Request \<Rightarrow> Request" where
  "Header_Set k v req = req\<lparr>Header := (k, v) # filter (\<lambda>kv. fst kv \<noteq> k) (Header req)\<rparr>"

definition newline :: string where
  "newline = [CHR 0x0A]"

section \<open>post\<close>

text \<open>
  A transport branch of \<^verbatim>\<open>post\<close> either leaves by \<^verbatim>\<open>return nil, err\<close> (\<open>Inl err\<close>) or
  falls out of the \<^verbatim>\<open>if\<close> with the variable \<^verbatim>\<open>resp\<close> assigned (\<open>Inr (Some resp)\<close>). It also
  yields the actions done so far and the calls deferred so far, which run when \<^verbatim>\<open>post\<close>
  is left, however it is left.
\<close>

type_synonym attempt = "(error + Response option) \<times> action list \<times> action list"

text \<open>Lines 66 to 86, the branch for the schemes \<^verbatim>\<open>http\<close> and \<^verbatim>\<open>https\<close>.\<close>

definition post_http :: "'p env \<Rightarrow> XmlRPCClient \<Rightarrow> string \<Rightarrow> attempt" where
  "post_http env r buf =
     (case http_NewRequest env ''POST'' (Url r) of
        Some err \<Rightarrow>
          (Inl err, [Print (''Fail to create request: '' @ Msg err @ newline)], [])
      | None \<Rightarrow>
          (let req0 = new_request ''POST'' (Url r) buf;
               req1 = (if length (user r) > 0 \<and> length (password r) > 0
                       then SetBasicAuth (user r) (password r) req0 else req0);
               req2 = (if timeout r > 0 then req1\<lparr>ContextTimeout := Some (timeout r)\<rparr> else req1);
               deferred = (if timeout r > 0 then [ContextCancel] else []);
               req = Header_Set ''Content-Type'' ''text/xml'' req2
           in case DefaultClient_Do env req of
                Inl err \<Rightarrow>
                  (Inl err,
                   [ClientDo req,
                    Print (''Fail to send request to supervisord: '' @ Msg err @ newline)],
                   deferred)
              | Inr resp \<Rightarrow> (Inr (Some resp), [ClientDo req], deferred)))"

text \<open>Lines 88 to 125, the branch for the scheme \<^verbatim>\<open>unix\<close>.\<close>

definition post_unix :: "'p env \<Rightarrow> XmlRPCClient \<Rightarrow> URL \<Rightarrow> string \<Rightarrow> attempt" where
  "post_unix env r url buf =
     (let dial = (if timeout r > 0 then NetDialTimeout (Path url) (timeout r)
                  else NetDial (Path url));
          dial_err = (if timeout r > 0 then net_DialTimeout env (Path url) (timeout r)
                      else net_Dial env (Path url))
      in case dial_err of
           Some err \<Rightarrow>
             (Inl err,
              [dial, Print (''Fail to connect unix socket path: '' @ serverurl r @ newline)],
              [])
         | None \<Rightarrow>
             (let deadline = (if timeout r > 0 then [ConnSetDeadline (timeout r)] else []);
                  deadline_err = (if timeout r > 0 then conn_SetDeadline env (timeout r) else None)
              in case deadline_err of
                   Some err \<Rightarrow> (Inl err, dial # deadline, [ConnClose])
                 | None \<Rightarrow>
                     (case http_NewRequest env ''POST'' ''/RPC2'' of
                        Some err \<Rightarrow>
                          (Inl err,
                           dial # deadline @ [Print ''Fail to create a http request''],
                           [ConnClose])
                      | None \<Rightarrow>
                          (let req0 = new_request ''POST'' ''/RPC2'' buf;
                               req1 = (if length (user r) > 0 \<and> length (password r) > 0
                                       then SetBasicAuth (user r) (password r) req0 else req0);
                               req = Header_Set ''Content-Type'' ''text/xml'' req1
                           in case req_Write env req of
                                Some err \<Rightarrow>
                                  (Inl err,
                                   dial # deadline @
                                     [ConnWrite req,
                                      Print (''Fail to write to unix socket '' @ serverurl r @ newline)],
                                   [ConnClose])
                              | None \<Rightarrow>
                                  (case http_ReadResponse env req of
                                     Inl err \<Rightarrow>
                                       (Inl err,
                                        dial # deadline @
                                          [ConnWrite req, ConnReadResponse,
                                           Print (''Fail to read response '' @ Msg err @ newline)],
                                        [ConnClose])
                                   | Inr resp \<Rightarrow>
                                       (Inr (Some resp),
                                        dial # deadline @ [ConnWrite req, ConnReadResponse],
                                        [ConnClose]))))))"

text \<open>
  Lines 59 to 126: encode, parse the address, choose the branch. With any other scheme
  neither branch runs and \<^verbatim>\<open>resp\<close> keeps its zero value, the nil pointer.
\<close>

definition post_transport :: "'p env \<Rightarrow> XmlRPCClient \<Rightarrow> string \<Rightarrow> rpc_args \<Rightarrow> attempt" where
  "post_transport env r method data =
     (let buf = EncodeClientRequest env method data
      in case url_Parse env (serverurl r) of
           Inl err \<Rightarrow> (Inl err, [], [])
         | Inr url \<Rightarrow>
             if Scheme url = ''http'' \<or> Scheme url = ''https'' then post_http env r buf
             else if Scheme url = ''unix'' then post_unix env r url buf
             else (Inr None, [], []))"

text \<open>
  Lines 128 to 133. Reading \<^verbatim>\<open>resp.StatusCode\<close> through a nil pointer panics.
\<close>

definition check_status :: "Response option \<Rightarrow> (error + Response) outcome \<times> action list" where
  "check_status resp =
     (case resp of
        None \<Rightarrow> (Panic ''runtime error: invalid memory address or nil pointer dereference'', [])
      | Some rsp \<Rightarrow>
          if StatusCode rsp sdiv 100 \<noteq> 2 then
            (Return (Inl (Error ''Response code is NOT 2xx'')),
             [Print (''Bad Response: '' @ Status rsp @ newline), BodyClose rsp])
          else (Return (Inr rsp), []))"

definition post ::
  "'p env \<Rightarrow> XmlRPCClient \<Rightarrow> string \<Rightarrow> rpc_args \<Rightarrow> (error + Response) outcome \<times> action list" where
  "post env r method data =
     (case post_transport env r method data of
        (Inl err, sent, deferred) \<Rightarrow> (Return (Inl err), sent @ deferred)
      | (Inr resp, sent, deferred) \<Rightarrow>
          (let (out, closing) = check_status resp in (out, sent @ closing @ deferred)))"

section \<open>The methods\<close>

record StartStopReply =
  Value :: bool

text \<open>Lines 163 to 180.\<close>

definition ChangeProcessState ::
  "'p env \<Rightarrow> XmlRPCClient \<Rightarrow> string \<Rightarrow> string
     \<Rightarrow> (StartStopReply \<times> error option) outcome \<times> action list" where
  "ChangeProcessState env r change processName =
     (if \<not> (change = ''start'' \<or> change = ''stop'') then
        (Return (\<lparr>Value = False\<rparr>, Some (Error ''Incorrect required state'')), [])
      else
        case post env r (''supervisor.'' @ change @ ''Process'') (ValueArg processName) of
          (Panic p, acts) \<Rightarrow> (Panic p, acts)
        | (Return (Inl err), acts) \<Rightarrow> (Return (\<lparr>Value = False\<rparr>, Some err), acts)
        | (Return (Inr resp), acts) \<Rightarrow>
            (let (v, err) = Decode_StartStopReply env (Body resp) False
             in (Return (\<lparr>Value = v\<rparr>, err), acts @ [BodyClose resp])))"

text \<open>
  Lines 182 to 195. \<^verbatim>\<open>AllProcessInfoReply\<close> has the single field \<^verbatim>\<open>Value\<close>, a slice of
  \<^verbatim>\<open>types.ProcessInfo\<close>; the model returns that slice, over a type \<open>'p\<close> left open.
\<close>

definition ChangeAllProcessState ::
  "'p env \<Rightarrow> XmlRPCClient \<Rightarrow> string \<Rightarrow> ('p list \<times> error option) outcome \<times> action list" where
  "ChangeAllProcessState env r change =
     (if \<not> (change = ''start'' \<or> change = ''stop'') then
        (Return ([], Some (Error ''Incorrect required state'')), [])
      else
        case post env r (''supervisor.'' @ change @ ''AllProcesses'') (WaitArg True) of
          (Panic p, acts) \<Rightarrow> (Panic p, acts)
        | (Return (Inl err), acts) \<Rightarrow> (Return ([], Some err), acts)
        | (Return (Inr resp), acts) \<Rightarrow>
            (let (v, err) = Decode_AllProcessInfoReply env (Body resp) []
             in (Return (v, err), acts @ [BodyClose resp])))"

text \<open>
  Lines 211 to 249. The call of \<^verbatim>\<open>ProcessXml\<close> is a statement: whatever the processor
  reports is dropped, and \<^verbatim>\<open>err\<close> is still the nil that \<^verbatim>\<open>post\<close> returned.
\<close>

definition reload_manager :: "closure XmlProcessorManager" where
  "reload_manager =
     AddLeafProcessor ''methodResponse/params/param/value/array/data/value'' leafProcessor
       (AddNonLeafProcessor ''methodResponse/params/param/value/array/data'' nonLeafProcessor
          NewXmlProcessorManager)"

definition ReloadConfig ::
  "'p env \<Rightarrow> XmlRPCClient \<Rightarrow> (ReloadConfigResult \<times> error option) outcome \<times> action list" where
  "ReloadConfig env r =
     (case post env r ''supervisor.reloadConfig'' NoArgs of
        (Panic p, acts) \<Rightarrow> (Panic p, acts)
      | (Return (Inl err), acts) \<Rightarrow>
          (Return (\<lparr>AddedGroup = [], ChangedGroup = [], RemovedGroup = []\<rparr>, Some err), acts)
      | (Return (Inr resp), acts) \<Rightarrow>
          (let (decoded, c) = ProcessXml reload_manager (Body resp) closure_init
           in (Return (reply c, None), acts @ [BodyClose resp])))"

section \<open>Concrete documents and a stub environment\<close>

text \<open>
  The document in which the two registered paths name what they are registered for: each
  group is a \<^verbatim>\<open>param\<close> whose \<^verbatim>\<open>value/array/data\<close> container holds one terminal \<^verbatim>\<open>value\<close>
  element per member of the group.
\<close>

definition group_events :: "string list \<Rightarrow> xml_event list" where
  "group_events g =
     [ElementEnter ''param'', ElementEnter ''value'', ElementEnter ''array'', ElementEnter ''data'']
       @ map (ElementLeaf ''value'') g
       @ [ElementExit, ElementExit, ElementExit, ElementExit]"

definition groups_document :: "string list list \<Rightarrow> xml_event list" where
  "groups_document gs =
     [ElementEnter ''methodResponse'', ElementEnter ''params'']
       @ concat (map group_events gs)
       @ [ElementExit, ElementExit]"

text \<open>The invocations that the processor makes of the two callbacks of \<^verbatim>\<open>ReloadConfig\<close>.\<close>

fun calls_from :: "string list \<Rightarrow> xml_event list \<Rightarrow> invocation list" where
  "calls_from path [] = []"
| "calls_from path (ElementEnter n # es) =
     (if path_string (path @ [n]) = ''methodResponse/params/param/value/array/data''
      then [NonLeafCall] else []) @ calls_from (path @ [n]) es"
| "calls_from path (ElementLeaf n str # es) =
     (if path_string (path @ [n]) = ''methodResponse/params/param/value/array/data/value''
      then [LeafCall str] else []) @ calls_from path es"
| "calls_from path (ElementExit # es) =
     (if path = [] then []
      else (if path_string path = ''methodResponse/params/param/value/array/data''
            then [NonLeafCall] else []) @ calls_from (butlast path) es)"

text \<open>
  An environment in which every library call succeeds: the address has the given scheme
  and the server answers with the given response.
\<close>

definition stub_Parse :: "string \<Rightarrow> error + URL" where
  "stub_Parse s =
     Inr \<lparr>Scheme = takeWhile (\<lambda>ch. ch \<noteq> CHR '':'') s,
          Path = dropWhile (\<lambda>ch. ch \<noteq> CHR ''/'') (drop 3 (dropWhile (\<lambda>ch. ch \<noteq> CHR '':'') s))\<rparr>"

definition stub_env :: "Response \<Rightarrow> unit env" where
  "stub_env resp =
     \<lparr>EncodeClientRequest = (\<lambda>method data. method),
      url_Parse = stub_Parse,
      http_NewRequest = (\<lambda>m target. None),
      DefaultClient_Do = (\<lambda>req. Inr resp),
      net_Dial = (\<lambda>path. None),
      net_DialTimeout = (\<lambda>path t. None),
      conn_SetDeadline = (\<lambda>t. None),
      req_Write = (\<lambda>req. None),
      http_ReadResponse = (\<lambda>req. Inr resp),
      Decode_StartStopReply = (\<lambda>body v. (True, None)),
      Decode_AllProcessInfoReply = (\<lambda>body v. (v, None))\<rparr>"

definition stub_client :: "string \<Rightarrow> string \<Rightarrow> string \<Rightarrow> XmlRPCClient" where
  "stub_client address u p = \<lparr>serverurl = address, user = u, password = p, timeout = 0\<rparr>"

definition ok_response :: "xml_event list \<Rightarrow> Response" where
  "ok_response body = \<lparr>Status = ''200 OK'', StatusCode = 200, Body = body\<rparr>"

definition not_found_response :: Response where
  "not_found_response = \<lparr>Status = ''404 Not Found'', StatusCode = 404, Body = []\<rparr>"

definition truncated_document :: "xml_event list" where
  "truncated_document =
     [ElementEnter ''methodResponse'', ElementEnter ''params'', ElementEnter ''param'',
      ElementEnter ''value'', ElementEnter ''array'', ElementEnter ''data'',
      ElementLeaf ''value'' ''a'']"

text \<open>
  What holds of the captured variables after \<open>n\<close> invocations, as long as the counter has
  not wrapped around: the first slice has at most one element, and is empty while no
  invocation has advanced the counter.
\<close>

definition added_inv :: "nat \<Rightarrow> closure \<Rightarrow> bool" where
  "added_inv n c \<longleftrightarrow>
     unat (var_i c + 1) \<le> n
     \<and> length (AddedGroup (reply c)) \<le> 1
     \<and> (var_i c + 1 = 0 \<longrightarrow> AddedGroup (reply c) = [])"

section \<open>Auxiliary facts\<close>

lemma invoke_all_append: "invoke_all (es @ fs) c = invoke_all fs (invoke_all es c)"
  by (induction es arbitrary: c) simp_all

lemma status_class_2xx: "(c sdiv 100 = 2) = (200 \<le> c \<and> c \<le> (299::int))"
proof (cases "0 \<le> c")
  case True
  then have "c sdiv 100 = c div 100"
    by (simp add: signed_divide_int_def sgn_if)
  then show ?thesis by presburger
next
  case False
  then have "c sdiv 100 = - (\<bar>c\<bar> div 100)"
    by (simp add: signed_divide_int_def sgn_if)
  moreover have "0 \<le> \<bar>c\<bar> div 100" by simp
  ultimately show ?thesis using False by linarith
qed

text \<open>
  On the manager that \<^verbatim>\<open>ReloadConfig\<close> builds, the processor does to the captured variables
  what the sequence \<open>calls_from\<close> of invocations does.
\<close>

lemma process_events_calls:
  "snd (process_events reload_manager path es c) = invoke_all (calls_from path es) c"
proof (induction es arbitrary: path c)
  case Nil
  then show ?case by simp
next
  case (Cons e es)
  show ?case
  proof (cases e)
    case (ElementEnter n)
    then show ?thesis
      using Cons.IH [of "path @ [n]"]
      by (simp add: invoke_all_append ProcessNonLeafNode_def reload_manager_def
          AddLeafProcessor_def AddNonLeafProcessor_def NewXmlProcessorManager_def)
  next
    case (ElementLeaf n str)
    then show ?thesis
      using Cons.IH [of path]
      by (simp add: invoke_all_append ProcessLeafNode_def reload_manager_def
          AddLeafProcessor_def AddNonLeafProcessor_def NewXmlProcessorManager_def)
  next
    case ElementExit
    then show ?thesis
      using Cons.IH [of "butlast path"]
      by (simp add: invoke_all_append ProcessNonLeafNode_def reload_manager_def
          AddLeafProcessor_def AddNonLeafProcessor_def NewXmlProcessorManager_def)
  qed
qed

lemma ProcessXml_calls:
  "snd (ProcessXml reload_manager body c) = invoke_all (calls_from [] body) c"
  by (simp add: ProcessXml_def process_events_calls)

text \<open>
  After a successful \<^verbatim>\<open>post\<close>, \<^verbatim>\<open>ReloadConfig\<close> returns the slices as the callbacks left
  them and a nil error, whatever the processor made of the document.
\<close>

lemma ReloadConfig_after_post:
  assumes "post env r ''supervisor.reloadConfig'' NoArgs = (Return (Inr resp), acts)"
  shows "ReloadConfig env r =
           (Return (reply (invoke_all (calls_from [] (Body resp)) closure_init), None),
            acts @ [BodyClose resp])"
proof -
  obtain decoded c where pc: "ProcessXml reload_manager (Body resp) closure_init = (decoded, c)"
    by (cases "ProcessXml reload_manager (Body resp) closure_init")
  then have "c = invoke_all (calls_from [] (Body resp)) closure_init"
    using ProcessXml_calls [of "Body resp" closure_init] by simp
  with pc assms show ?thesis by (simp add: ReloadConfig_def)
qed




subsection \<open>The first slice never holds two values\<close>

lemma unat_succ_no_wrap:
  fixes w :: "64 word"
  assumes "unat w + 1 < 2 ^ 64"
  shows "unat (w + 1) = unat w + 1"
  using assms by (simp add: unat_word_ariths)

lemma succ_nonzero:
  fixes w :: "64 word"
  assumes "unat w + 1 < 2 ^ 64"
  shows "w + 1 \<noteq> 0"
proof
  assume "w + 1 = 0"
  then have "unat (w + 1) = 0" by simp
  then show False using unat_succ_no_wrap [OF assms] by simp
qed

lemma added_inv_init: "added_inv 0 closure_init"
  by (simp add: added_inv_def closure_init_def)

lemma added_inv_step:
  assumes "added_inv n c" and "n + 1 < 2 ^ 64"
  shows "added_inv (n + 1) (invoke e c)"
proof -
  let ?w = "var_i c + 1"
  from assms have b: "unat ?w + 1 < 2 ^ 64" by (simp add: added_inv_def)
  have u: "unat (?w + 1) = unat ?w + 1" by (rule unat_succ_no_wrap [OF b])
  have nz: "?w + 1 \<noteq> 0" by (rule succ_nonzero [OF b])
  show ?thesis
  proof (cases e)
    case (LeafCall v)
    then show ?thesis
      using assms(1) u nz
      by (auto simp: added_inv_def leafProcessor_def Let_def)
  next
    case NonLeafCall
    then show ?thesis
      using assms(1) u nz
      by (auto simp: added_inv_def nonLeafProcessor_def)
  qed
qed

lemma added_inv_run:
  "length es < 2 ^ 64 \<Longrightarrow> added_inv (length es) (invoke_all es closure_init)"
proof (induction es rule: rev_induct)
  case Nil
  then show ?case by (simp add: added_inv_init)
next
  case (snoc e es)
  then have "added_inv (length es) (invoke_all es closure_init)" by simp
  moreover from snoc.prems have "length es + 1 < 2 ^ 64" by simp
  ultimately have "added_inv (length es + 1) (invoke e (invoke_all es closure_init))"
    by (rule added_inv_step)
  then show ?case by (simp add: invoke_all_append)
qed

text \<open>
  Every leaf invocation advances the counter, so only the first one that finds it at \<open>-1\<close>
  can append to \<^verbatim>\<open>AddedGroup\<close>: no sequence of fewer than \<open>2^64\<close> invocations leaves two
  values there.
\<close>

lemma added_at_most_one:
  "length es < 2 ^ 64 \<Longrightarrow> length (AddedGroup (reply (invoke_all es closure_init))) \<le> 1"
  using added_inv_run [of es] by (simp add: added_inv_def)

lemma three_groups_calls:
  "calls_from [] (groups_document [[''a'', ''b''], [], [''c'']]) =
     [NonLeafCall, LeafCall ''a'', LeafCall ''b'', NonLeafCall, NonLeafCall, NonLeafCall,
      NonLeafCall, LeafCall ''c'', NonLeafCall]"
  by (simp add: groups_document_def group_events_def)

lemma four_groups_calls:
  "calls_from [] (groups_document [[''a''], [''b''], [''c''], [''d'']]) =
     [NonLeafCall, LeafCall ''a'', NonLeafCall,
      NonLeafCall, LeafCall ''b'', NonLeafCall,
      NonLeafCall, LeafCall ''c'', NonLeafCall,
      NonLeafCall, LeafCall ''d'', NonLeafCall]"
  by (simp add: groups_document_def group_events_def)

text \<open>
  Where the requests of \<^verbatim>\<open>post\<close> are: the status check and the deferred calls send none,
  and each branch hands over the request it built.
\<close>

lemma post_actions:
  assumes "post_transport env r method data = (res, sent, deferred)"
  shows "\<exists>closing. snd (post env r method data) = sent @ closing @ deferred
           \<and> (\<forall>req. ClientDo req \<notin> set closing \<and> ConnWrite req \<notin> set closing)"
proof (cases res)
  case (Inl err)
  with assms show ?thesis by (simp add: post_def)
next
  case (Inr resp)
  with assms show ?thesis
    by (cases resp) (auto simp: post_def check_status_def)
qed

lemma post_transport_requests:
  assumes "post_transport env r method data = (res, sent, deferred)"
    and "ClientDo req \<in> set (sent @ deferred) \<or> ConnWrite req \<in> set (sent @ deferred)"
  shows "BasicAuth req =
           (if user r \<noteq> [] \<and> password r \<noteq> [] then Some (user r, password r) else None)"
proof (cases "url_Parse env (serverurl r)")
  case (Inl err)
  with assms show ?thesis by (auto simp: post_transport_def)
next
  case (Inr url)
  let ?buf = "EncodeClientRequest env method data"
  consider (http) "Scheme url = ''http'' \<or> Scheme url = ''https''"
    | (unix) "\<not> (Scheme url = ''http'' \<or> Scheme url = ''https'')" "Scheme url = ''unix''"
    | (other) "\<not> (Scheme url = ''http'' \<or> Scheme url = ''https'')" "Scheme url \<noteq> ''unix''"
    by blast
  then show ?thesis
  proof cases
    case http
    with Inr assms(1) have "post_http env r ?buf = (res, sent, deferred)"
      by (simp add: post_transport_def)
    with assms(2) show ?thesis
      by (auto simp: post_http_def Let_def new_request_def SetBasicAuth_def Header_Set_def
          split: option.splits sum.splits if_splits)
  next
    case unix
    with Inr assms(1) have "post_unix env r url ?buf = (res, sent, deferred)"
      by (simp add: post_transport_def)
    with assms(2) show ?thesis
      by (auto simp: post_unix_def Let_def new_request_def SetBasicAuth_def Header_Set_def
          split: option.splits sum.splits if_splits)
  next
    case other
    with Inr assms show ?thesis by (auto simp: post_transport_def)
  qed
qed

text \<open>
  What the two transports do in the stub environment, for a client with both credentials
  on http and for a client without a password on the socket.
\<close>

lemma stub_transport_http:
  "post_transport (stub_env resp) (stub_client ''http://localhost:9001'' ''admin'' ''secret'')
     ''supervisor.getVersion'' NoArgs
   = (Inr (Some resp),
      [ClientDo \<lparr>Method = ''POST'', Target = ''http://localhost:9001/RPC2'',
                 Payload = ''supervisor.getVersion'',
                 Header = [(''Content-Type'', ''text/xml'')],
                 BasicAuth = Some (''admin'', ''secret''), ContextTimeout = None\<rparr>],
      [])"
  by (simp add: post_transport_def post_http_def stub_env_def stub_client_def stub_Parse_def
      Url_def new_request_def SetBasicAuth_def Header_Set_def)

lemma stub_transport_unix:
  "post_transport (stub_env resp) (stub_client ''unix:///run/supervisor.sock'' ''admin'' [])
     ''supervisor.getVersion'' NoArgs
   = (Inr (Some resp),
      [NetDial ''/run/supervisor.sock'',
       ConnWrite \<lparr>Method = ''POST'', Target = ''/RPC2'',
                  Payload = ''supervisor.getVersion'',
                  Header = [(''Content-Type'', ''text/xml'')],
                  BasicAuth = None, ContextTimeout = None\<rparr>,
       ConnReadResponse],
      [ConnClose])"
  by (simp add: post_transport_def post_unix_def stub_env_def stub_client_def stub_Parse_def
      new_request_def SetBasicAuth_def Header_Set_def)

section \<open>The claims\<close>

text \<open>
  C2. In the reload-configuration decode, after any sequence of callback invocations: a
  leaf callback sets the flag \<^verbatim>\<open>has_value\<close> and advances the index \<^verbatim>\<open>i\<close> by one; a
  container pulse leaves the flag cleared, and it advances the index by one exactly when
  it found the flag not set, leaving the index alone when it found the flag set.
\<close>

theorem callbacks_flag_and_index:
  "has_value (invoke_all (es @ [LeafCall v]) c) = True
   \<and> var_i (invoke_all (es @ [LeafCall v]) c) = var_i (invoke_all es c) + 1
   \<and> has_value (invoke_all (es @ [NonLeafCall]) c) = False
   \<and> var_i (invoke_all (es @ [NonLeafCall]) c) =
       (if has_value (invoke_all es c) then var_i (invoke_all es c)
        else var_i (invoke_all es c) + 1)"
  by (simp add: invoke_all_append leafProcessor_def nonLeafProcessor_def Let_def)

text \<open>
  C1. The claim: a reload-configuration response that encodes the groups \<open>["a","b"]\<close>,
  \<open>[]\<close>, \<open>["c"]\<close> yields added \<open>["a","b"]\<close>, changed \<open>[]\<close>, removed \<open>["c"]\<close>. The code
  does not: the leaf callback advances the index at every value, so the two values of the
  first group go to different slices (\<open>added_at_most_one\<close>). On the document of the three
  groups, with the pulse of the first container moving the index to 0, \<^verbatim>\<open>ReloadConfig\<close>
  returns added \<open>[]\<close>, changed \<open>["a"]\<close>, removed \<open>["b"]\<close> and drops \<open>"c"\<close>.
\<close>

theorem reload_three_groups_result:
  "fst (ReloadConfig
          (stub_env (ok_response (groups_document [[''a'', ''b''], [], [''c'']])))
          (stub_client ''http://localhost:9001'' [] []))
   = Return (\<lparr>AddedGroup = [], ChangedGroup = [''a''], RemovedGroup = [''b'']\<rparr>, None)"
  by code_simp



text \<open>
  C4. Throughout the decode the index, as the \<^verbatim>\<open>switch\<close> of the leaf callback reads it,
  routes the value to exactly one slice: 0 appends to \<^verbatim>\<open>AddedGroup\<close>, 1 to \<^verbatim>\<open>ChangedGroup\<close>,
  2 to \<^verbatim>\<open>RemovedGroup\<close>, each leaving the other two as they were; with any other index the
  value is dropped and the reply is unchanged. No error comes of it: once \<^verbatim>\<open>post\<close> has
  returned a response, \<^verbatim>\<open>ReloadConfig\<close> returns a nil error.
\<close>

theorem index_routes_leaf_value:
  "(var_i (leafProcessor v c) = 0 \<longrightarrow>
      reply (leafProcessor v c) = (reply c)\<lparr>AddedGroup := AddedGroup (reply c) @ [v]\<rparr>)
   \<and> (var_i (leafProcessor v c) = 1 \<longrightarrow>
      reply (leafProcessor v c) = (reply c)\<lparr>ChangedGroup := ChangedGroup (reply c) @ [v]\<rparr>)
   \<and> (var_i (leafProcessor v c) = 2 \<longrightarrow>
      reply (leafProcessor v c) = (reply c)\<lparr>RemovedGroup := RemovedGroup (reply c) @ [v]\<rparr>)
   \<and> (var_i (leafProcessor v c) \<noteq> 0 \<and> var_i (leafProcessor v c) \<noteq> 1
        \<and> var_i (leafProcessor v c) \<noteq> 2 \<longrightarrow>
      reply (leafProcessor v c) = reply c)
   \<and> (post env r ''supervisor.reloadConfig'' NoArgs = (Return (Inr resp), acts) \<longrightarrow>
      (\<exists>rep. fst (ReloadConfig env r) = Return (rep, None)))"
  by (auto simp: leafProcessor_def Let_def ReloadConfig_after_post)

theorem index_routes_leaf_value_witness:
  "var_i (leafProcessor ''a'' closure_init) = 0
   \<and> reply (leafProcessor ''a'' closure_init)
       = \<lparr>AddedGroup = [''a''], ChangedGroup = [], RemovedGroup = []\<rparr>
   \<and> var_i (leafProcessor ''b'' (closure_init\<lparr>var_i := 0\<rparr>)) = 1
   \<and> reply (leafProcessor ''b'' (closure_init\<lparr>var_i := 0\<rparr>))
       = \<lparr>AddedGroup = [], ChangedGroup = [''b''], RemovedGroup = []\<rparr>
   \<and> var_i (leafProcessor ''c'' (closure_init\<lparr>var_i := 1\<rparr>)) = 2
   \<and> reply (leafProcessor ''c'' (closure_init\<lparr>var_i := 1\<rparr>))
       = \<lparr>AddedGroup = [], ChangedGroup = [], RemovedGroup = [''c'']\<rparr>
   \<and> var_i (leafProcessor ''d'' (closure_init\<lparr>var_i := 2\<rparr>)) = 3
   \<and> reply (leafProcessor ''d'' (closure_init\<lparr>var_i := 2\<rparr>))
       = \<lparr>AddedGroup = [], ChangedGroup = [], RemovedGroup = []\<rparr>
   \<and> (\<exists>rep. fst (ReloadConfig
                    (stub_env (ok_response (groups_document [[''a''], [''b''], [''c''], [''d'']])))
                    (stub_client ''http://localhost:9001'' [] []))
              = Return (rep, None))"
proof -
  have i0: "var_i (leafProcessor ''a'' closure_init) = 0"
    by (simp add: leafProcessor_def closure_init_def Let_def)
  have i1: "var_i (leafProcessor ''b'' (closure_init\<lparr>var_i := 0\<rparr>)) = 1"
    by (simp add: leafProcessor_def closure_init_def Let_def)
  have i2: "var_i (leafProcessor ''c'' (closure_init\<lparr>var_i := 1\<rparr>)) = 2"
    by (simp add: leafProcessor_def closure_init_def Let_def)
  have i3: "var_i (leafProcessor ''d'' (closure_init\<lparr>var_i := 2\<rparr>)) = 3"
    by (simp add: leafProcessor_def closure_init_def Let_def)
  have p: "post (stub_env (ok_response (groups_document [[''a''], [''b''], [''c''], [''d'']])))
             (stub_client ''http://localhost:9001'' [] []) ''supervisor.reloadConfig'' NoArgs
           = (Return (Inr (ok_response (groups_document [[''a''], [''b''], [''c''], [''d'']]))),
              [ClientDo \<lparr>Method = ''POST'', Target = ''http://localhost:9001/RPC2'',
                         Payload = ''supervisor.reloadConfig'',
                         Header = [(''Content-Type'', ''text/xml'')],
                         BasicAuth = None, ContextTimeout = None\<rparr>])"
    by code_simp
  note r0 = index_routes_leaf_value [of "''a''" closure_init
      "stub_env (ok_response (groups_document [[''a''], [''b''], [''c''], [''d'']]))"
      "stub_client ''http://localhost:9001'' [] []", THEN conjunct1, rule_format, OF i0]
  note r1 = index_routes_leaf_value [of "''b''" "closure_init\<lparr>var_i := 0\<rparr>",
      THEN conjunct2, THEN conjunct1, rule_format, OF i1]
  note r2 = index_routes_leaf_value [of "''c''" "closure_init\<lparr>var_i := 1\<rparr>",
      THEN conjunct2, THEN conjunct2, THEN conjunct1, rule_format, OF i2]
  have "var_i (leafProcessor ''d'' (closure_init\<lparr>var_i := 2\<rparr>)) \<noteq> 0
        \<and> var_i (leafProcessor ''d'' (closure_init\<lparr>var_i := 2\<rparr>)) \<noteq> 1
        \<and> var_i (leafProcessor ''d'' (closure_init\<lparr>var_i := 2\<rparr>)) \<noteq> 2"
    by (simp add: i3)
  note r3 = index_routes_leaf_value [of "''d''" "closure_init\<lparr>var_i := 2\<rparr>",
      THEN conjunct2, THEN conjunct2, THEN conjunct2, THEN conjunct1, rule_format, OF this]
  note r4 = index_routes_leaf_value [of "''a''" closure_init
      "stub_env (ok_response (groups_document [[''a''], [''b''], [''c''], [''d'']]))"
      "stub_client ''http://localhost:9001'' [] []",
      THEN conjunct2, THEN conjunct2, THEN conjunct2, THEN conjunct2, rule_format, OF p]
  have e0: "reply (leafProcessor ''a'' closure_init)
              = \<lparr>AddedGroup = [''a''], ChangedGroup = [], RemovedGroup = []\<rparr>"
    using r0 by (simp add: closure_init_def)
  have e1: "reply (leafProcessor ''b'' (closure_init\<lparr>var_i := 0\<rparr>))
              = \<lparr>AddedGroup = [], ChangedGroup = [''b''], RemovedGroup = []\<rparr>"
    using r1 by (simp add: closure_init_def)
  have e2: "reply (leafProcessor ''c'' (closure_init\<lparr>var_i := 1\<rparr>))
              = \<lparr>AddedGroup = [], ChangedGroup = [], RemovedGroup = [''c'']\<rparr>"
    using r2 by (simp add: closure_init_def)
  have e3: "reply (leafProcessor ''d'' (closure_init\<lparr>var_i := 2\<rparr>))
              = \<lparr>AddedGroup = [], ChangedGroup = [], RemovedGroup = []\<rparr>"
    using r3 by (simp add: closure_init_def)
  from i0 e0 i1 e1 i2 e2 i3 e3 r4 show ?thesis by blast
qed

text \<open>
  C5. Given a verb other than \<open>start\<close> and \<open>stop\<close>, \<^verbatim>\<open>ChangeProcessState\<close> and
  \<^verbatim>\<open>ChangeAllProcessState\<close> return the validation failure and do nothing to the outside
  world: no action is recorded. Given one of the two verbs, they begin with what \<^verbatim>\<open>post\<close>
  does for the method named after the verb.
\<close>

theorem invalid_change_sends_nothing:
  "(change \<noteq> ''start'' \<and> change \<noteq> ''stop'' \<longrightarrow>
      ChangeProcessState env r change processName
        = (Return (\<lparr>Value = False\<rparr>, Some (Error ''Incorrect required state'')), [])
      \<and> ChangeAllProcessState env r change
        = (Return ([], Some (Error ''Incorrect required state'')), []))
   \<and> (change = ''start'' \<or> change = ''stop'' \<longrightarrow>
      prefix (snd (post env r (''supervisor.'' @ change @ ''Process'') (ValueArg processName)))
        (snd (ChangeProcessState env r change processName))
      \<and> prefix (snd (post env r (''supervisor.'' @ change @ ''AllProcesses'') (WaitArg True)))
        (snd (ChangeAllProcessState env r change)))"
proof -
  have a: "prefix (snd (post env r (''supervisor.'' @ change @ ''Process'') (ValueArg processName)))
        (snd (ChangeProcessState env r change processName))"
    if "change = ''start'' \<or> change = ''stop''"
    using that
    by (auto simp: ChangeProcessState_def split: prod.splits outcome.splits sum.splits)
  have b: "prefix (snd (post env r (''supervisor.'' @ change @ ''AllProcesses'') (WaitArg True)))
        (snd (ChangeAllProcessState env r change))"
    if "change = ''start'' \<or> change = ''stop''"
    using that
    by (auto simp: ChangeAllProcessState_def split: prod.splits outcome.splits sum.splits)
  show ?thesis
    using a b by (simp add: ChangeProcessState_def ChangeAllProcessState_def)
qed

theorem invalid_change_sends_nothing_witness:
  "ChangeProcessState (stub_env (ok_response [])) (stub_client ''http://localhost:9001'' [] [])
       ''restart'' ''webapp''
     = (Return (\<lparr>Value = False\<rparr>, Some (Error ''Incorrect required state'')), [])
   \<and> ChangeAllProcessState (stub_env (ok_response [])) (stub_client ''http://localhost:9001'' [] [])
       ''restart''
     = (Return ([], Some (Error ''Incorrect required state'')), [])
   \<and> prefix
       (snd (post (stub_env (ok_response [])) (stub_client ''http://localhost:9001'' [] [])
               ''supervisor.startProcess'' (ValueArg ''webapp'')))
       (snd (ChangeProcessState (stub_env (ok_response []))
               (stub_client ''http://localhost:9001'' [] []) ''start'' ''webapp''))
   \<and> prefix
       (snd (post (stub_env (ok_response [])) (stub_client ''http://localhost:9001'' [] [])
               ''supervisor.stopAllProcesses'' (WaitArg True)))
       (snd (ChangeAllProcessState (stub_env (ok_response []))
               (stub_client ''http://localhost:9001'' [] []) ''stop''))"
  using
    invalid_change_sends_nothing [of "''restart''" "stub_env (ok_response [])"
      "stub_client ''http://localhost:9001'' [] []" "''webapp''"]
    invalid_change_sends_nothing [of "''start''" "stub_env (ok_response [])"
      "stub_client ''http://localhost:9001'' [] []" "''webapp''"]
    invalid_change_sends_nothing [of "''stop''" "stub_env (ok_response [])"
      "stub_client ''http://localhost:9001'' [] []" "''webapp''"]
  by simp

text \<open>
  C6. Whenever a transport branch of \<^verbatim>\<open>post\<close> has obtained a response whose status code
  is not in 200..299, \<^verbatim>\<open>post\<close> returns a failure and no response, and the body of that
  response is closed after everything the branch did and before the deferred calls run.
\<close>

theorem non_2xx_closes_body_and_fails:
  assumes "post_transport env r method data = (Inr (Some resp), sent, deferred)"
    and "\<not> (200 \<le> StatusCode resp \<and> StatusCode resp \<le> 299)"
  shows "\<exists>err out. post env r method data
           = (Return (Inl err), sent @ [out, BodyClose resp] @ deferred)"
  using assms by (simp add: post_def check_status_def status_class_2xx)

theorem non_2xx_closes_body_and_fails_witness:
  "\<not> (200 \<le> StatusCode not_found_response \<and> StatusCode not_found_response \<le> 299)
   \<and> (\<exists>err out.
        post (stub_env not_found_response)
          (stub_client ''unix:///run/supervisor.sock'' ''admin'' [])
          ''supervisor.getVersion'' NoArgs
        = (Return (Inl err),
           [NetDial ''/run/supervisor.sock'',
            ConnWrite \<lparr>Method = ''POST'', Target = ''/RPC2'',
                       Payload = ''supervisor.getVersion'',
                       Header = [(''Content-Type'', ''text/xml'')],
                       BasicAuth = None, ContextTimeout = None\<rparr>,
            ConnReadResponse, out, BodyClose not_found_response, ConnClose]))"
proof -
  have h: "\<not> (200 \<le> StatusCode not_found_response \<and> StatusCode not_found_response \<le> 299)"
    by (simp add: not_found_response_def)
  show ?thesis
    using h non_2xx_closes_body_and_fails [OF stub_transport_unix h] by simp
qed

text \<open>
  C7, as stated, fails: for a response with the status text \<open>404 Not Found\<close> the failure
  that \<^verbatim>\<open>post\<close> returns reads \<open>Response code is NOT 2xx\<close>, in which the status text does
  not occur.
\<close>

theorem status_text_not_in_error_counterexample:
  "fst (post (stub_env not_found_response) (stub_client ''http://localhost:9001'' [] [])
          ''supervisor.getVersion'' NoArgs)
     = Return (Inl (Error ''Response code is NOT 2xx''))
   \<and> Status not_found_response = ''404 Not Found''
   \<and> \<not> sublist ''404 Not Found'' ''Response code is NOT 2xx''"
  by code_simp

text \<open>
  C7, amended. The failure that \<^verbatim>\<open>post\<close> returns for a response whose status code is not
  in 200..299 is the fixed text \<open>Response code is NOT 2xx\<close>, whatever the status text; the
  literal status text is written to standard output, in the line \<open>Bad Response: \<close> followed
  by the status text, before the failure is returned.
\<close>

theorem non_2xx_error_is_fixed_text:
  assumes "post_transport env r method data = (Inr (Some resp), sent, deferred)"
    and "\<not> (200 \<le> StatusCode resp \<and> StatusCode resp \<le> 299)"
  shows "fst (post env r method data) = Return (Inl (Error ''Response code is NOT 2xx''))
         \<and> Print (''Bad Response: '' @ Status resp @ newline) \<in> set (snd (post env r method data))"
  using assms by (simp add: post_def check_status_def status_class_2xx)

theorem non_2xx_error_is_fixed_text_witness:
  "\<not> (200 \<le> StatusCode not_found_response \<and> StatusCode not_found_response \<le> 299)
   \<and> fst (post (stub_env not_found_response)
            (stub_client ''http://localhost:9001'' ''admin'' ''secret'')
            ''supervisor.getVersion'' NoArgs)
       = Return (Inl (Error ''Response code is NOT 2xx''))
   \<and> Print (''Bad Response: 404 Not Found'' @ newline)
       \<in> set (snd (post (stub_env not_found_response)
                     (stub_client ''http://localhost:9001'' ''admin'' ''secret'')
                     ''supervisor.getVersion'' NoArgs))"
proof -
  have h: "\<not> (200 \<le> StatusCode not_found_response \<and> StatusCode not_found_response \<le> 299)"
    by (simp add: not_found_response_def)
  show ?thesis
    using h non_2xx_error_is_fixed_text [OF stub_transport_http h]
    by (simp add: not_found_response_def)
qed

text \<open>
  C8. The claim: on a malformed or truncated document \<^verbatim>\<open>ReloadConfig\<close> surfaces a decode
  failure and returns no partial result. The code does not: the outcome of the processor
  is dropped (\<open>ReloadConfig_after_post\<close>). On a document cut off after the first value,
  which the processor reports as a decode failure, \<^verbatim>\<open>ReloadConfig\<close> returns the value
  accumulated so far together with a nil error.
\<close>

theorem reload_truncated_document_result:
  "fst (ProcessXml reload_manager truncated_document closure_init) = DecodeFailure
   \<and> fst (ReloadConfig (stub_env (ok_response truncated_document))
            (stub_client ''http://localhost:9001'' [] []))
     = Return (\<lparr>AddedGroup = [], ChangedGroup = [''a''], RemovedGroup = []\<rparr>, None)"
  by code_simp

text \<open>
  C9. Every request that \<^verbatim>\<open>post\<close> sends, through the http client or written to the unix
  socket, for any method and argument, carries basic-auth credentials if and only if the
  configured user and the configured password are both non-empty, and then they are the
  configured ones.
\<close>

theorem basic_auth_iff_both_nonempty:
  assumes "ClientDo req \<in> set (snd (post env r method data))
           \<or> ConnWrite req \<in> set (snd (post env r method data))"
  shows "BasicAuth req =
           (if length (user r) > 0 \<and> length (password r) > 0
            then Some (user r, password r) else None)"
proof -
  obtain res did deferred where t: "post_transport env r method data = (res, did, deferred)"
    by (cases "post_transport env r method data")
  from post_actions [OF t] obtain closing where
    c: "snd (post env r method data) = did @ closing @ deferred"
      "\<forall>req. ClientDo req \<notin> set closing \<and> ConnWrite req \<notin> set closing"
    by blast
  with assms have "ClientDo req \<in> set (did @ deferred) \<or> ConnWrite req \<in> set (did @ deferred)"
    by auto
  from post_transport_requests [OF t this] show ?thesis by simp
qed

theorem basic_auth_iff_both_nonempty_witness:
  "ClientDo \<lparr>Method = ''POST'', Target = ''http://localhost:9001/RPC2'',
              Payload = ''supervisor.getVersion'',
              Header = [(''Content-Type'', ''text/xml'')],
              BasicAuth = Some (''admin'', ''secret''), ContextTimeout = None\<rparr>
     \<in> set (snd (post (stub_env (ok_response []))
                   (stub_client ''http://localhost:9001'' ''admin'' ''secret'')
                   ''supervisor.getVersion'' NoArgs))
   \<and> ConnWrite \<lparr>Method = ''POST'', Target = ''/RPC2'',
                 Payload = ''supervisor.getVersion'',
                 Header = [(''Content-Type'', ''text/xml'')],
                 BasicAuth = None, ContextTimeout = None\<rparr>
     \<in> set (snd (post (stub_env (ok_response []))
                   (stub_client ''unix:///run/supervisor.sock'' ''admin'' [])
                   ''supervisor.getVersion'' NoArgs))"
proof -
  let ?q = "\<lparr>Method = ''POST'', Target = ''http://localhost:9001/RPC2'',
              Payload = ''supervisor.getVersion'',
              Header = [(''Content-Type'', ''text/xml'')],
              BasicAuth = Some (''admin'', ''secret''), ContextTimeout = None\<rparr>"
  let ?u = "\<lparr>Method = ''POST'', Target = ''/RPC2'',
              Payload = ''supervisor.getVersion'',
              Header = [(''Content-Type'', ''text/xml'')],
              BasicAuth = None, ContextTimeout = None\<rparr>"
  have a: "ClientDo ?q
             \<in> set (snd (post (stub_env (ok_response []))
                   (stub_client ''http://localhost:9001'' ''admin'' ''secret'')
                   ''supervisor.getVersion'' NoArgs))"
    by (simp add: post_def stub_transport_http check_status_def ok_response_def)
  have b: "ConnWrite ?u
             \<in> set (snd (post (stub_env (ok_response []))
                   (stub_client ''unix:///run/supervisor.sock'' ''admin'' [])
                   ''supervisor.getVersion'' NoArgs))"
    by (simp add: post_def stub_transport_unix check_status_def ok_response_def)
  from a have "BasicAuth ?q = Some (''admin'', ''secret'')"
    using basic_auth_iff_both_nonempty [of ?q "stub_env (ok_response [])"
        "stub_client ''http://localhost:9001'' ''admin'' ''secret''" "''supervisor.getVersion''" NoArgs]
    by (simp add: stub_client_def)
  moreover from b have "BasicAuth ?u = None"
    using basic_auth_iff_both_nonempty [of ?u "stub_env (ok_response [])"
        "stub_client ''unix:///run/supervisor.sock'' ''admin'' []" "''supervisor.getVersion''" NoArgs]
    by (simp add: stub_client_def)
  ultimately show ?thesis using a b by simp
qed

text \<open>
  C10. If the address parses and its scheme is none of \<open>http\<close>, \<open>https\<close>, \<open>unix\<close>, then
  neither transport branch runs: nothing is sent, no error is returned, \<^verbatim>\<open>resp\<close> is still
  nil at the status check, and \<^verbatim>\<open>post\<close> panics on the nil pointer dereference instead of
  returning a transport failure.
\<close>

theorem unsupported_scheme_nil_dereference:
  assumes "url_Parse env (serverurl r) = Inr u"
    and "Scheme u \<noteq> ''http''" and "Scheme u \<noteq> ''https''" and "Scheme u \<noteq> ''unix''"
  shows "post_transport env r method data = (Inr None, [], [])
         \<and> post env r method data
             = (Panic ''runtime error: invalid memory address or nil pointer dereference'', [])"
  using assms by (simp add: post_def post_transport_def check_status_def)

theorem unsupported_scheme_nil_dereference_witness:
  "url_Parse (stub_env (ok_response [])) (serverurl (stub_client ''ftp://localhost/x'' [] []))
     = Inr \<lparr>Scheme = ''ftp'', Path = ''/x''\<rparr>
   \<and> post (stub_env (ok_response [])) (stub_client ''ftp://localhost/x'' [] [])
       ''supervisor.getVersion'' NoArgs
     = (Panic ''runtime error: invalid memory address or nil pointer dereference'', [])"
proof -
  have h: "url_Parse (stub_env (ok_response [])) (serverurl (stub_client ''ftp://localhost/x'' [] []))
             = Inr \<lparr>Scheme = ''ftp'', Path = ''/x''\<rparr>"
    by (simp add: stub_env_def stub_client_def stub_Parse_def)
  show ?thesis
    using h unsupported_scheme_nil_dereference [OF h, of "''supervisor.getVersion''" NoArgs]
    by simp
qed

end
